theory Spec2Isabelle
  imports Complex_Main "HOL-Library.Product_Lexorder"
begin

section \<open>EV adoption forecaster: the recursive forecasting loops of app.py\<close>

text \<open>
  The script app.py forecasts, for one county (lines 63-114) and for a selection of up to
  three counties (lines 145-199), the monthly electric-vehicle totals of the next
  \<open>forecast_horizon\<close> months. Each step derives lag, rolling-mean, percentage-change and
  slope features from two rolling windows, asks a trained model for one number, and
  appends that number to the windows.

  Modelling decisions:
  \<^item> numbers are exact: the historical totals are \<open>int\<close>, the window values and the
    predictions are \<open>real\<close>. Rounding error and overflow of 64-bit floats and integers
    are outside the model;
  \<^item> a value that is not a finite number (NaN, infinity) is never stored in a \<open>real\<close>:
    the model's answer is a datatype that has these cases, and a division whose divisor
    is zero yields \<open>None\<close>;
  \<^item> every exception of the script is an \<open>error\<close> value, and the script variables at the
    moment of the raise are kept with it;
  \<^item> \<open>forecast_horizon\<close> is the constant 36 in the script and a parameter here.
\<close>

subsection \<open>Dates\<close>

text \<open>A pandas timestamp as (year, month, day); the time of day is never changed by the
  script. Pairs are ordered lexicographically, which is the chronological order.\<close>

type_synonym date = "int \<times> int \<times> int"

definition is_leap :: "int \<Rightarrow> bool" where
  "is_leap y \<longleftrightarrow> (y mod 4 = 0 \<and> y mod 100 \<noteq> 0) \<or> y mod 400 = 0"

definition days_in_month :: "int \<Rightarrow> int \<Rightarrow> int" where
  "days_in_month y m =
     (if m = 2 then (if is_leap y then 29 else 28)
      else if m = 4 \<or> m = 6 \<or> m = 9 \<or> m = 11 then 30 else 31)"

text \<open>\<^verbatim>\<open>latest_date + pd.DateOffset(months=i)\<close>: the calendar month advances by \<open>i\<close>, the
  day of the month is kept unless the target month is shorter.\<close>

definition DateOffset_months :: "date \<Rightarrow> int \<Rightarrow> date" where
  "DateOffset_months dt i =
     (case dt of (y, m, d) \<Rightarrow>
        let t = m - 1 + i; y' = y + t div 12; m' = t mod 12 + 1
        in (y', m', min d (days_in_month y' m')))"

text \<open>The number of the calendar month of a date, counted from year 0.\<close>

definition month_index :: "date \<Rightarrow> int" where
  "month_index dt = (case dt of (y, m, d) \<Rightarrow> 12 * y + (m - 1))"

subsection \<open>The data frame, the feature row and the model\<close>

record county_row =
  County :: string
  Date :: date
  EV_Total :: int
  months_since_start_col :: int
  county_encoded :: int

text \<open>\<^verbatim>\<open>df[df['County'] == county].sort_values("Date")\<close>. The dates of one county are
  distinct in the data, so the sorting algorithm does not matter.\<close>

definition county_df_of :: "county_row list \<Rightarrow> string \<Rightarrow> county_row list" where
  "county_df_of df county = sort_key Date (filter (\<lambda>r. County r = county) df)"

text \<open>The dictionary \<open>row\<close> of lines 83-93. The two percentage changes are \<open>None\<close> when the
  division that computes them has a zero divisor (numpy yields inf or nan there).\<close>

record feature_row =
  row_months_since_start :: int
  row_county_encoded :: int
  ev_total_lag1 :: real
  ev_total_lag2 :: real
  ev_total_lag3 :: real
  ev_total_roll_mean_3 :: real
  ev_total_pct_change_1 :: "real option"
  ev_total_pct_change_3 :: "real option"
  ev_growth_slope :: real

text \<open>What \<^verbatim>\<open>model.predict(pd.DataFrame([row]))[0]\<close> can do: raise, or return a float that
  is NaN, infinite or finite. The model is a parameter of every function below.\<close>

datatype prediction = Raised | NaN | Infinite | Finite real

type_synonym predictor = "feature_row \<Rightarrow> prediction"

text \<open>The exceptions of the script. \<open>PredictError\<close> is whatever the model raised. The last
  three constructors are the error kinds the specification names; no equation below
  produces them.\<close>

datatype error =
    IndexError | KeyError | ValueError | OverflowError | PredictError
  | InsufficientHistory | PredictorFailure | InvalidHorizon

subsection \<open>Library functions used by the script\<close>

text \<open>\<^verbatim>\<open>xs[-6:]\<close>\<close>

definition last6 :: "'a list \<Rightarrow> 'a list" where
  "last6 xs = drop (length xs - 6) xs"

text \<open>\<^verbatim>\<open>np.cumsum\<close> and \<^verbatim>\<open>Series.cumsum\<close>\<close>

fun cumsum_from :: "'a::monoid_add \<Rightarrow> 'a list \<Rightarrow> 'a list" where
  "cumsum_from a [] = []"
| "cumsum_from a (x # xs) = (a + x) # cumsum_from (a + x) xs"

definition cumsum :: "'a::monoid_add list \<Rightarrow> 'a list" where
  "cumsum xs = cumsum_from 0 xs"

text \<open>\<^verbatim>\<open>Series.max()\<close> of a non-empty column\<close>

definition series_max :: "'a::linorder list \<Rightarrow> 'a" where
  "series_max xs = fold max (tl xs) (hd xs)"

text \<open>Python's \<^verbatim>\<open>round(x)\<close> of a finite float: the nearest integer, a tie goes to the even
  one. (On NaN it raises ValueError, on an infinity OverflowError: see the step.)\<close>

definition py_round :: "real \<Rightarrow> int" where
  "py_round x =
     (let f = \<lfloor>x\<rfloor>; d = x - of_int f
      in if d < 1 / 2 then f else if 1 / 2 < d then f + 1
         else if even f then f else f + 1)"

text \<open>True division of numpy scalars; \<open>None\<close> stands for the inf or nan of a zero divisor.\<close>

definition np_divide :: "real \<Rightarrow> real \<Rightarrow> real option" where
  "np_divide a b = (if b = 0 then None else Some (a / b))"

text \<open>\<^verbatim>\<open>np.mean([lag1, lag2, lag3])\<close>\<close>

definition np_mean :: "real list \<Rightarrow> real" where
  "np_mean xs = sum_list xs / real (length xs)"

text \<open>\<^verbatim>\<open>np.polyfit(x, y, 1)[0]\<close> in exact arithmetic: the slope given by the normal equations
  of the straight-line fit.\<close>

definition polyfit1_slope :: "real list \<Rightarrow> real list \<Rightarrow> real" where
  "polyfit1_slope xs ys =
     (let n = real (length xs); sx = sum_list xs; sy = sum_list ys;
          sxy = sum_list (map2 (*) xs ys); sxx = sum_list (map (\<lambda>x. x * x) xs)
      in (n * sxy - sx * sy) / (n * sxx - sx * sx))"

text \<open>The intercept that goes with it, \<^verbatim>\<open>np.polyfit(x, y, 1)[1]\<close>. The script does not
  use it; it is needed to say what a least-squares fit is.\<close>

definition polyfit1_intercept :: "real list \<Rightarrow> real list \<Rightarrow> real" where
  "polyfit1_intercept xs ys =
     (sum_list ys - polyfit1_slope xs ys * sum_list xs) / real (length xs)"

text \<open>The sum of squared residuals of the line \<open>a * x + b\<close>, and what it means for a line
  to be a least-squares fit.\<close>

definition sq_error :: "real \<Rightarrow> real \<Rightarrow> real list \<Rightarrow> real list \<Rightarrow> real" where
  "sq_error a b xs ys = sum_list (map2 (\<lambda>x y. (a * x + b - y)\<^sup>2) xs ys)"

definition is_lsq_fit :: "real \<Rightarrow> real \<Rightarrow> real list \<Rightarrow> real list \<Rightarrow> bool" where
  "is_lsq_fit a b xs ys \<longleftrightarrow> (\<forall>a' b'. sq_error a b xs ys \<le> sq_error a' b' xs ys)"

subsection \<open>The state of the single-county loop (lines 67-72)\<close>

text \<open>The variables the loop reads and writes. The type of the displayed value in
  \<open>future_rows\<close> is a parameter, so that the display function can be exchanged.\<close>

record 'd state =
  historical_ev :: "real list"
  cumulative_ev :: "real list"
  months_since_start :: int
  future_rows :: "(date \<times> 'd) list"

definition init_state :: "county_row list \<Rightarrow> 'd state" where
  "init_state county_df =
     (let hist = map real_of_int (last6 (map EV_Total county_df))
      in \<lparr> historical_ev = hist,
           cumulative_ev = cumsum hist,
           months_since_start = series_max (map months_since_start_col county_df),
           future_rows = [] \<rparr>)"

subsection \<open>One iteration (lines 75-100)\<close>

text \<open>Line 77: each of the three negative indices raises IndexError when the window is
  shorter than it reaches.\<close>

definition lags :: "real list \<Rightarrow> error + real \<times> real \<times> real" where
  "lags h =
     (if length h < 3 then Inl IndexError
      else Inr (h ! (length h - 1), h ! (length h - 2), h ! (length h - 3)))"

text \<open>Lines 79 and 80\<close>

definition pct_change :: "real \<Rightarrow> real \<Rightarrow> real option" where
  "pct_change lag1 lagk = (if lagk \<noteq> 0 then np_divide (lag1 - lagk) lagk else Some 0)"

text \<open>Line 81\<close>

definition growth_slope :: "real list \<Rightarrow> real" where
  "growth_slope cum =
     (if 6 \<le> length cum then polyfit1_slope (map real [0..<6]) (last6 cum) else 0)"

text \<open>Lines 77-93, from the windows and the already advanced \<open>months_since_start\<close>.\<close>

definition features :: "int \<Rightarrow> 'd state \<Rightarrow> error + feature_row" where
  "features county_code s =
     (case lags (historical_ev s) of
        Inl e \<Rightarrow> Inl e
      | Inr (lag1, lag2, lag3) \<Rightarrow>
          Inr \<lparr> row_months_since_start = months_since_start s,
                row_county_encoded = county_code,
                ev_total_lag1 = lag1,
                ev_total_lag2 = lag2,
                ev_total_lag3 = lag3,
                ev_total_roll_mean_3 = np_mean [lag1, lag2, lag3],
                ev_total_pct_change_1 = pct_change lag1 lag2,
                ev_total_pct_change_3 = pct_change lag1 lag3,
                ev_growth_slope = growth_slope (cumulative_ev s) \<rparr>)"

text \<open>The body of the loop, with the function applied to the prediction for display as
  the parameter \<open>rnd\<close>; the script has \<open>round\<close> there. An exception comes with the
  variables as they are when it is raised.\<close>

definition forecast_step_with ::
  "(real \<Rightarrow> 'd) \<Rightarrow> predictor \<Rightarrow> int \<Rightarrow> date \<Rightarrow> nat \<Rightarrow> 'd state \<Rightarrow> error \<times> 'd state + 'd state"
where
  "forecast_step_with rnd model county_code latest_date i s =
     (let forecast_date = DateOffset_months latest_date (int i);
          s1 = s\<lparr>months_since_start := months_since_start s + 1\<rparr>
      in case features county_code s1 of
           Inl e \<Rightarrow> Inl (e, s1)
         | Inr row \<Rightarrow>
            (case model row of
               Raised \<Rightarrow> Inl (PredictError, s1)
             | NaN \<Rightarrow> Inl (ValueError, s1)
             | Infinite \<Rightarrow> Inl (OverflowError, s1)
             | Finite pred \<Rightarrow>
                 let s2 = s1\<lparr>future_rows := future_rows s1 @ [(forecast_date, rnd pred)]\<rparr>;
                     s3 = s2\<lparr>historical_ev := last6 (historical_ev s2 @ [pred])\<rparr>
                 in if cumulative_ev s3 = [] then Inl (IndexError, s3)
                    else Inr (s3\<lparr>cumulative_ev :=
                           last6 (cumulative_ev s3 @ [last (cumulative_ev s3) + pred])\<rparr>)))"

text \<open>The loop over \<^verbatim>\<open>range(1, forecast_horizon + 1)\<close>, given as the list of its indices.\<close>

fun forecast_loop_with ::
  "(real \<Rightarrow> 'd) \<Rightarrow> predictor \<Rightarrow> int \<Rightarrow> date \<Rightarrow> nat list \<Rightarrow> 'd state \<Rightarrow> error \<times> 'd state + 'd state"
where
  "forecast_loop_with rnd model county_code latest_date [] s = Inr s"
| "forecast_loop_with rnd model county_code latest_date (i # is) s =
     (case forecast_step_with rnd model county_code latest_date i s of
        Inl e \<Rightarrow> Inl e
      | Inr s' \<Rightarrow> forecast_loop_with rnd model county_code latest_date is s')"

definition py_range :: "nat \<Rightarrow> nat \<Rightarrow> nat list" where
  "py_range a b = [a..<b]"

subsection \<open>Observers of a run\<close>

text \<open>The feature rows handed to the model and the numbers \<open>pred\<close> it returned, in the
  order of the iterations that completed. The script keeps neither list; they are read
  off the same steps.\<close>

definition step_row :: "int \<Rightarrow> 'd state \<Rightarrow> feature_row option" where
  "step_row county_code s =
     (case features county_code (s\<lparr>months_since_start := months_since_start s + 1\<rparr>) of
        Inl e \<Rightarrow> None | Inr row \<Rightarrow> Some row)"

definition step_pred :: "predictor \<Rightarrow> int \<Rightarrow> 'd state \<Rightarrow> real option" where
  "step_pred model county_code s =
     (case step_row county_code s of
        None \<Rightarrow> None
      | Some row \<Rightarrow> (case model row of Finite pred \<Rightarrow> Some pred | _ \<Rightarrow> None))"


fun preds_of_run ::
  "(real \<Rightarrow> 'd) \<Rightarrow> predictor \<Rightarrow> int \<Rightarrow> date \<Rightarrow> nat list \<Rightarrow> 'd state \<Rightarrow> real list"
where
  "preds_of_run rnd model county_code latest_date [] s = []"
| "preds_of_run rnd model county_code latest_date (i # is) s =
     (case forecast_step_with rnd model county_code latest_date i s of
        Inl e \<Rightarrow> []
      | Inr s' \<Rightarrow>
          (case step_pred model county_code s of
             None \<Rightarrow> []
           | Some pred \<Rightarrow> pred # preds_of_run rnd model county_code latest_date is s'))"



subsection \<open>The forecast frame and the combined series (lines 103-114)\<close>

record forecast_frame =
  fc_Date :: "date list"
  fc_Predicted_EV_Total :: "int list"
  fc_Cumulative_EV :: "int list"

record combined_frame =
  cb_Date :: "date list"
  cb_Cumulative_EV :: "int list"
  cb_label :: "string list"

text \<open>Lines 103-114. An empty \<open>future_rows\<close> gives a frame without columns, and line 109
  raises KeyError; \<^verbatim>\<open>iloc[-1]\<close> of an empty column raises IndexError.\<close>

definition stitch ::
  "county_row list \<Rightarrow> (date \<times> int) list \<Rightarrow> error + forecast_frame \<times> combined_frame"
where
  "stitch county_df rows =
     (let historical_cum = cumsum (map EV_Total county_df)
      in if rows = [] then Inl KeyError
         else if historical_cum = [] then Inl IndexError
         else
           let fc = \<lparr> fc_Date = map fst rows,
                      fc_Predicted_EV_Total = map snd rows,
                      fc_Cumulative_EV =
                        map (\<lambda>c. c + last historical_cum) (cumsum (map snd rows)) \<rparr>
           in Inr (fc,
                   \<lparr> cb_Date = map Date county_df @ fc_Date fc,
                     cb_Cumulative_EV = historical_cum @ fc_Cumulative_EV fc,
                     cb_label = replicate (length county_df) ''Historical''
                                @ replicate (length rows) ''Forecast'' \<rparr>))"

text \<open>Lines 63-114 for one county's sorted rows. Line 64 reads \<^verbatim>\<open>iloc[0]\<close> and raises
  IndexError when there is no row.\<close>

definition forecast_with ::
  "(real \<Rightarrow> int) \<Rightarrow> predictor \<Rightarrow> county_row list \<Rightarrow> nat
     \<Rightarrow> error + forecast_frame \<times> combined_frame"
where
  "forecast_with rnd model county_df forecast_horizon =
     (case county_df of
        [] \<Rightarrow> Inl IndexError
      | r0 # _ \<Rightarrow>
          let county_code = county_encoded r0;
              latest_date = series_max (map Date county_df)
          in (case forecast_loop_with rnd model county_code latest_date
                     (py_range 1 (forecast_horizon + 1)) (init_state county_df) of
                Inl raised \<Rightarrow> Inl (fst raised)
              | Inr s \<Rightarrow> stitch county_df (future_rows s)))"

definition forecast ::
  "predictor \<Rightarrow> county_row list \<Rightarrow> nat \<Rightarrow> error + forecast_frame \<times> combined_frame"
where
  "forecast = forecast_with py_round"

text \<open>The unrounded predictions of the run that \<open>forecast\<close> makes.\<close>

definition unrounded_predictions :: "predictor \<Rightarrow> county_row list \<Rightarrow> nat \<Rightarrow> real list" where
  "unrounded_predictions model county_df forecast_horizon =
     preds_of_run py_round model (county_encoded (hd county_df))
       (series_max (map Date county_df)) (py_range 1 (forecast_horizon + 1))
       (init_state county_df)"

text \<open>The columns that the claims speak about, empty when the run raised.\<close>

definition cumulative_forecast :: "predictor \<Rightarrow> county_row list \<Rightarrow> nat \<Rightarrow> int list" where
  "cumulative_forecast model county_df forecast_horizon =
     (case forecast model county_df forecast_horizon of
        Inl e \<Rightarrow> []
      | Inr out \<Rightarrow> fc_Cumulative_EV (fst out))"

definition cumulative_historical :: "county_row list \<Rightarrow> int list" where
  "cumulative_historical county_df = cumsum (map EV_Total county_df)"

subsection \<open>The multi-county comparison (lines 145-199)\<close>

text \<open>The second loop has its own variables \<open>hist_ev\<close>, \<open>cum_ev\<close>, \<open>months_since\<close> and
  \<open>future_rows_cty\<close>, assigned afresh for each county (lines 155-160).\<close>

record cty_state =
  hist_ev :: "real list"
  cum_ev :: "real list"
  months_since :: int
  future_rows_cty :: "(date \<times> int) list"

definition cty_init :: "county_row list \<Rightarrow> cty_state" where
  "cty_init cty_df =
     (let hist = map real_of_int (last6 (map EV_Total cty_df))
      in \<lparr> hist_ev = hist,
           cum_ev = cumsum hist,
           months_since = series_max (map months_since_start_col cty_df),
           future_rows_cty = [] \<rparr>)"

text \<open>The state of the first loop read as a state of the second: \<open>hist_ev\<close> for
  \<open>historical_ev\<close>, \<open>cum_ev\<close> for \<open>cumulative_ev\<close>, \<open>months_since\<close> for \<open>months_since_start\<close>,
  \<open>future_rows_cty\<close> for \<open>future_rows\<close>.\<close>

definition as_cty_state :: "int state \<Rightarrow> cty_state" where
  "as_cty_state s =
     \<lparr> hist_ev = historical_ev s, cum_ev = cumulative_ev s,
       months_since = months_since_start s, future_rows_cty = future_rows s \<rparr>"

text \<open>Lines 162-187\<close>

definition cty_step ::
  "predictor \<Rightarrow> int \<Rightarrow> date \<Rightarrow> nat \<Rightarrow> cty_state \<Rightarrow> error \<times> cty_state + cty_state"
where
  "cty_step model cty_code last_date i t =
     (let forecast_date = DateOffset_months last_date (int i);
          t1 = t\<lparr>months_since := months_since t + 1\<rparr>
      in case lags (hist_ev t1) of
           Inl e \<Rightarrow> Inl (e, t1)
         | Inr (lag1, lag2, lag3) \<Rightarrow>
            (let roll_mean = np_mean [lag1, lag2, lag3];
                 pct_change_1 = (if lag2 \<noteq> 0 then np_divide (lag1 - lag2) lag2 else Some 0);
                 pct_change_3 = (if lag3 \<noteq> 0 then np_divide (lag1 - lag3) lag3 else Some 0);
                 ev_slope = (if 6 \<le> length (cum_ev t1)
                             then polyfit1_slope (map real [0..<6]) (last6 (cum_ev t1))
                             else 0);
                 row = \<lparr> row_months_since_start = months_since t1,
                         row_county_encoded = cty_code,
                         ev_total_lag1 = lag1,
                         ev_total_lag2 = lag2,
                         ev_total_lag3 = lag3,
                         ev_total_roll_mean_3 = roll_mean,
                         ev_total_pct_change_1 = pct_change_1,
                         ev_total_pct_change_3 = pct_change_3,
                         ev_growth_slope = ev_slope \<rparr>
             in case model row of
                  Raised \<Rightarrow> Inl (PredictError, t1)
                | NaN \<Rightarrow> Inl (ValueError, t1)
                | Infinite \<Rightarrow> Inl (OverflowError, t1)
                | Finite pred \<Rightarrow>
                    let t2 = t1\<lparr>future_rows_cty :=
                                 future_rows_cty t1 @ [(forecast_date, py_round pred)]\<rparr>;
                        t3 = t2\<lparr>hist_ev := last6 (hist_ev t2 @ [pred])\<rparr>
                    in if cum_ev t3 = [] then Inl (IndexError, t3)
                       else Inr (t3\<lparr>cum_ev :=
                              last6 (cum_ev t3 @ [last (cum_ev t3) + pred])\<rparr>)))"

fun cty_loop ::
  "predictor \<Rightarrow> int \<Rightarrow> date \<Rightarrow> nat list \<Rightarrow> cty_state \<Rightarrow> error \<times> cty_state + cty_state"
where
  "cty_loop model cty_code last_date [] t = Inr t"
| "cty_loop model cty_code last_date (i # is) t =
     (case cty_step model cty_code last_date i t of
        Inl e \<Rightarrow> Inl e
      | Inr t' \<Rightarrow> cty_loop model cty_code last_date is t')"

text \<open>Lines 153-198 for one county \<open>cty\<close> with the sorted rows \<open>cty_df\<close>: the frame \<open>fc_df\<close>
  and the frame \<open>combined_cty\<close>, whose label column is the county.\<close>

definition cty_forecast ::
  "predictor \<Rightarrow> county_row list \<Rightarrow> string \<Rightarrow> nat \<Rightarrow> error + forecast_frame \<times> combined_frame"
where
  "cty_forecast model cty_df cty forecast_horizon =
     (case cty_df of
        [] \<Rightarrow> Inl IndexError
      | r0 # _ \<Rightarrow>
          let cty_code = county_encoded r0;
              last_date = series_max (map Date cty_df)
          in (case cty_loop model cty_code last_date
                     (py_range 1 (forecast_horizon + 1)) (cty_init cty_df) of
                Inl raised \<Rightarrow> Inl (fst raised)
              | Inr t \<Rightarrow>
                  let hist_cum = cumsum (map EV_Total cty_df)
                  in if future_rows_cty t = [] then Inl KeyError
                     else if hist_cum = [] then Inl IndexError
                     else
                       let fc_df =
                             \<lparr> fc_Date = map fst (future_rows_cty t),
                               fc_Predicted_EV_Total = map snd (future_rows_cty t),
                               fc_Cumulative_EV =
                                 map (\<lambda>c. c + last hist_cum)
                                   (cumsum (map snd (future_rows_cty t))) \<rparr>;
                           combined_cty =
                             \<lparr> cb_Date = map Date cty_df @ fc_Date fc_df,
                               cb_Cumulative_EV = hist_cum @ fc_Cumulative_EV fc_df,
                               cb_label =
                                 replicate (length cty_df + length (fc_Date fc_df)) cty \<rparr>
                       in Inr (fc_df, combined_cty)))"

text \<open>The loop of line 152: \<open>comparison_data\<close> collects \<open>combined_cty\<close> of each county; an
  exception in one county ends the script.\<close>

fun comparison_loop ::
  "predictor \<Rightarrow> county_row list \<Rightarrow> string list \<Rightarrow> nat \<Rightarrow> error + combined_frame list"
where
  "comparison_loop model df [] forecast_horizon = Inr []"
| "comparison_loop model df (cty # rest) forecast_horizon =
     (case cty_forecast model (county_df_of df cty) cty forecast_horizon of
        Inl e \<Rightarrow> Inl e
      | Inr out \<Rightarrow>
          (case comparison_loop model df rest forecast_horizon of
             Inl e \<Rightarrow> Inl e
           | Inr comparison_data \<Rightarrow> Inr (snd out # comparison_data)))"

text \<open>Lines 147-199: with more than three counties selected the script shows a message
  and computes nothing (\<open>None\<close>).\<close>

definition multi_county_comparison ::
  "predictor \<Rightarrow> county_row list \<Rightarrow> string list \<Rightarrow> nat \<Rightarrow> error + combined_frame list option"
where
  "multi_county_comparison model df multi_counties forecast_horizon =
     (if 3 < length multi_counties then Inr None
      else case comparison_loop model df multi_counties forecast_horizon of
             Inl e \<Rightarrow> Inl e
           | Inr comparison_data \<Rightarrow> Inr (Some comparison_data))"

text \<open>What the comparison is measured against: the single-county forecast of lines 63-114
  run on each selected county alone, its combined series labelled with the county.\<close>

definition relabel :: "string \<Rightarrow> combined_frame \<Rightarrow> combined_frame" where
  "relabel cty cb = cb\<lparr>cb_label := replicate (length (cb_Date cb)) cty\<rparr>"

fun each_alone ::
  "predictor \<Rightarrow> county_row list \<Rightarrow> string list \<Rightarrow> nat \<Rightarrow> error + combined_frame list"
where
  "each_alone model df [] forecast_horizon = Inr []"
| "each_alone model df (cty # rest) forecast_horizon =
     (case forecast model (county_df_of df cty) forecast_horizon of
        Inl e \<Rightarrow> Inl e
      | Inr out \<Rightarrow>
          (case each_alone model df rest forecast_horizon of
             Inl e \<Rightarrow> Inl e
           | Inr others \<Rightarrow> Inr (relabel cty (snd out) # others)))"

subsection \<open>Example inputs\<close>

text \<open>A model that answers every row in the same way, and monthly rows of one county.\<close>

definition const_model :: "prediction \<Rightarrow> predictor" where
  "const_model p row = p"

definition example_row :: "string \<Rightarrow> int \<Rightarrow> int \<Rightarrow> county_row" where
  "example_row cty m v =
     \<lparr> County = cty, Date = (2024, m, 1), EV_Total = v,
       months_since_start_col = m - 1, county_encoded = 1 \<rparr>"

definition history3 :: "county_row list" where
  "history3 = [example_row ''King'' 1 100, example_row ''King'' 2 120, example_row ''King'' 3 150]"

definition history2 :: "county_row list" where
  "history2 = [example_row ''King'' 1 100, example_row ''King'' 2 120]"

definition history7 :: "county_row list" where
  "history7 = map (\<lambda>m. example_row ''King'' m m) [1, 2, 3, 4, 5, 6, 7]"

definition four_counties :: "string list" where
  "four_counties = [''Ada'', ''King'', ''Pierce'', ''Yakima'']"

definition df4 :: "county_row list" where
  "df4 = concat (map (\<lambda>cty. [example_row cty 1 100, example_row cty 2 120,
                              example_row cty 3 150]) four_counties)"

definition history_zero :: "county_row list" where
  "history_zero = [example_row ''King'' 1 150, example_row ''King'' 2 0, example_row ''King'' 3 0]"

definition history6 :: "county_row list" where
  "history6 = map (\<lambda>m. example_row ''King'' m (2 * m - 1)) [1, 2, 3, 4, 5, 6]"

text \<open>A model that answers 160 for the rows before month \<open>n\<close> and \<open>bad\<close> from then on.\<close>

definition failing_from :: "int \<Rightarrow> prediction \<Rightarrow> predictor" where
  "failing_from n bad row = (if row_months_since_start row < n then Finite 160 else bad)"

section \<open>Properties\<close>

subsection \<open>Windows, cumulative sums and features\<close>

lemma length_last6: "length (last6 xs) = min 6 (length xs)"
  by (simp add: last6_def)

lemma last6_short: "length xs \<le> 6 \<Longrightarrow> last6 xs = xs"
  by (simp add: last6_def)

lemma last6_Nil_iff: "last6 xs = [] \<longleftrightarrow> xs = []"
  by (cases xs) (simp_all add: last6_def)

lemma last_last6: "xs \<noteq> [] \<Longrightarrow> last (last6 xs) = last xs"
  by (simp add: last6_def last_drop)

lemma length_cumsum_from: "length (cumsum_from a xs) = length xs"
  by (induction xs arbitrary: a) simp_all

lemma length_cumsum: "length (cumsum xs) = length xs"
  by (simp add: cumsum_def length_cumsum_from)

lemma last_cumsum_from: "xs \<noteq> [] \<Longrightarrow> last (cumsum_from a xs) = a + sum_list xs"
proof (induction xs arbitrary: a)
  case Nil
  then show ?case by simp
next
  case (Cons x xs)
  show ?case
  proof (cases xs)
    case Nil
    then show ?thesis by simp
  next
    case (Cons y ys)
    then have "cumsum_from (a + x) xs \<noteq> []" by simp
    with Cons.IH [of "a + x"] Cons show ?thesis by (simp add: add.assoc)
  qed
qed

lemma last_cumsum: "xs \<noteq> [] \<Longrightarrow> last (cumsum xs) = sum_list xs"
  by (simp add: cumsum_def last_cumsum_from)

lemma nth_cumsum_from:
  "i < length xs \<Longrightarrow> cumsum_from a xs ! i = a + sum_list (take (Suc i) xs)"
proof (induction xs arbitrary: a i)
  case Nil
  then show ?case by simp
next
  case (Cons x xs)
  show ?case
  proof (cases i)
    case 0
    then show ?thesis by simp
  next
    case (Suc j)
    with Cons.prems have "j < length xs" by simp
    from Cons.IH [OF this, of "a + x"] Suc show ?thesis by (simp add: add.assoc)
  qed
qed


lemma features_Inr_iff:
  "(\<exists>row. features c s = Inr row) \<longleftrightarrow> 3 \<le> length (historical_ev s)"
  by (auto simp: features_def lags_def split: sum.splits)

lemma features_short: "length (historical_ev s) < 3 \<Longrightarrow> features c s = Inl IndexError"
  by (simp add: features_def lags_def)

lemma features_fields:
  assumes "features c s = Inr row"
  shows "ev_total_lag1 row = historical_ev s ! (length (historical_ev s) - 1)"
    and "ev_total_lag2 row = historical_ev s ! (length (historical_ev s) - 2)"
    and "ev_total_lag3 row = historical_ev s ! (length (historical_ev s) - 3)"
    and "ev_total_roll_mean_3 row
           = (ev_total_lag1 row + ev_total_lag2 row + ev_total_lag3 row) / 3"
    and "ev_total_pct_change_1 row = pct_change (ev_total_lag1 row) (ev_total_lag2 row)"
    and "ev_total_pct_change_3 row = pct_change (ev_total_lag1 row) (ev_total_lag3 row)"
    and "ev_growth_slope row = growth_slope (cumulative_ev s)"
    and "row_months_since_start row = months_since_start s"
    and "row_county_encoded row = c"
  using assms
  by (auto simp: features_def lags_def np_mean_def split: if_splits)


subsection \<open>The least-squares line through six points\<close>

lemma range6: "map real [0..<6] = [0, 1, 2, 3, 4, 5]"
proof -
  have "[0..<6] = [0, 1, 2, 3, 4, 5::nat]" by code_simp
  then show ?thesis by simp
qed

lemma slope6:
  "polyfit1_slope [0, 1, 2, 3, 4, 5] [y0, y1, y2, y3, y4, y5]
     = (- 5 * y0 - 3 * y1 - y2 + y3 + 3 * y4 + 5 * y5) / 35"
  by (simp add: polyfit1_slope_def field_simps)

lemma intercept6:
  "polyfit1_intercept [0, 1, 2, 3, 4, 5] [y0, y1, y2, y3, y4, y5]
     = (11 * y0 + 8 * y1 + 5 * y2 + 2 * y3 - y4 - 4 * y5) / 21"
  by (simp add: polyfit1_intercept_def slope6 field_simps)

lemma sq_error6:
  "sq_error a b [0, 1, 2, 3, 4, 5] [y0, y1, y2, y3, y4, y5]
     = (b - y0)\<^sup>2 + (a + b - y1)\<^sup>2 + (2 * a + b - y2)\<^sup>2 + (3 * a + b - y3)\<^sup>2
       + (4 * a + b - y4)\<^sup>2 + (5 * a + b - y5)\<^sup>2"
  by (simp add: sq_error_def mult.commute)

lemma sq_error6_split:
  fixes a b y0 y1 y2 y3 y4 y5 :: real
  defines "xs \<equiv> [0, 1, 2, 3, 4, 5 :: real]"
  defines "ys \<equiv> [y0, y1, y2, y3, y4, y5]"
  shows "sq_error a b xs ys
     = sq_error (polyfit1_slope xs ys) (polyfit1_intercept xs ys) xs ys
       + sq_error (a - polyfit1_slope xs ys) (b - polyfit1_intercept xs ys) xs
           [0, 0, 0, 0, 0, 0]"
proof -
  define m where "m = polyfit1_slope xs ys"
  define k where "k = polyfit1_intercept xs ys"
  define D where "D = a - m"
  define E where "E = b - k"
  define r0 where "r0 = y0 - k"
  define r1 where "r1 = y1 - (m + k)"
  define r2 where "r2 = y2 - (2 * m + k)"
  define r3 where "r3 = y3 - (3 * m + k)"
  define r4 where "r4 = y4 - (4 * m + k)"
  define r5 where "r5 = y5 - (5 * m + k)"
  have m: "m = (- 5 * y0 - 3 * y1 - y2 + y3 + 3 * y4 + 5 * y5) / 35"
    unfolding m_def xs_def ys_def by (rule slope6)
  have k: "k = (11 * y0 + 8 * y1 + 5 * y2 + 2 * y3 - y4 - 4 * y5) / 21"
    unfolding k_def xs_def ys_def by (rule intercept6)
  have n1: "r0 + r1 + r2 + r3 + r4 + r5 = 0"
    unfolding r0_def r1_def r2_def r3_def r4_def r5_def m k by (simp add: field_simps)
  have n2: "r1 + 2 * r2 + 3 * r3 + 4 * r4 + 5 * r5 = 0"
    unfolding r0_def r1_def r2_def r3_def r4_def r5_def m k by (simp add: field_simps)
  have cross: "E * r0 + (D + E) * r1 + (2 * D + E) * r2 + (3 * D + E) * r3
                 + (4 * D + E) * r4 + (5 * D + E) * r5
               = D * (r1 + 2 * r2 + 3 * r3 + 4 * r4 + 5 * r5)
                 + E * (r0 + r1 + r2 + r3 + r4 + r5)"
    by (simp add: algebra_simps)
  have sq: "(u - r)\<^sup>2 = u\<^sup>2 + r\<^sup>2 - 2 * (u * r)" for u r :: real
    by (simp add: power2_eq_square algebra_simps)
  have lhs: "sq_error a b xs ys
      = (E - r0)\<^sup>2 + ((D + E) - r1)\<^sup>2 + ((2 * D + E) - r2)\<^sup>2 + ((3 * D + E) - r3)\<^sup>2
        + ((4 * D + E) - r4)\<^sup>2 + ((5 * D + E) - r5)\<^sup>2"
    unfolding xs_def ys_def sq_error6 D_def E_def r0_def r1_def r2_def r3_def r4_def r5_def
    by (simp add: algebra_simps)
  have opt: "sq_error m k xs ys = r0\<^sup>2 + r1\<^sup>2 + r2\<^sup>2 + r3\<^sup>2 + r4\<^sup>2 + r5\<^sup>2"
    unfolding xs_def ys_def sq_error6 r0_def r1_def r2_def r3_def r4_def r5_def
    by (simp add: power2_commute)
  have dev: "sq_error D E xs [0, 0, 0, 0, 0, 0]
      = E\<^sup>2 + (D + E)\<^sup>2 + (2 * D + E)\<^sup>2 + (3 * D + E)\<^sup>2 + (4 * D + E)\<^sup>2 + (5 * D + E)\<^sup>2"
    unfolding xs_def sq_error6 by simp
  have "sq_error a b xs ys
      = sq_error m k xs ys + sq_error D E xs [0, 0, 0, 0, 0, 0]
        - 2 * (E * r0 + (D + E) * r1 + (2 * D + E) * r2 + (3 * D + E) * r3
                 + (4 * D + E) * r4 + (5 * D + E) * r5)"
    unfolding lhs opt dev sq by simp
  also have "\<dots> = sq_error m k xs ys + sq_error D E xs [0, 0, 0, 0, 0, 0]"
    unfolding cross n1 n2 by simp
  finally show ?thesis by (simp add: m_def k_def D_def E_def)
qed

lemma sq_error_nonneg: "0 \<le> sq_error a b xs ys"
  unfolding sq_error_def by (rule sum_list_nonneg) auto

lemma sq_error6_zero:
  assumes "sq_error D E [0, 1, 2, 3, 4, 5] [0, 0, 0, 0, 0, 0] \<le> 0"
  shows "D = 0"
proof -
  have "E\<^sup>2 + (D + E)\<^sup>2 + ((2 * D + E)\<^sup>2 + (3 * D + E)\<^sup>2 + (4 * D + E)\<^sup>2 + (5 * D + E)\<^sup>2) \<le> 0"
    using assms unfolding sq_error6 by simp
  moreover have "0 \<le> (2 * D + E)\<^sup>2 + (3 * D + E)\<^sup>2 + (4 * D + E)\<^sup>2 + (5 * D + E)\<^sup>2"
    by simp
  ultimately have "E\<^sup>2 + (D + E)\<^sup>2 \<le> 0" by linarith
  moreover have "0 \<le> E\<^sup>2" "0 \<le> (D + E)\<^sup>2" by simp_all
  ultimately have "E\<^sup>2 = 0" "(D + E)\<^sup>2 = 0" by linarith+
  then show ?thesis by simp
qed

lemma lsq6:
  fixes ys :: "real list"
  assumes "length ys = 6"
  defines "xs \<equiv> map real [0..<6]"
  shows "is_lsq_fit (polyfit1_slope xs ys) (polyfit1_intercept xs ys) xs ys"
    and "is_lsq_fit a b xs ys \<Longrightarrow> a = polyfit1_slope xs ys"
proof -
  from assms(1) obtain y0 y1 y2 y3 y4 y5 where ys: "ys = [y0, y1, y2, y3, y4, y5]"
    by (auto simp: length_Suc_conv eval_nat_numeral)
  have xs: "xs = [0, 1, 2, 3, 4, 5]" unfolding xs_def by (rule range6)
  have split: "sq_error a' b' xs ys
     = sq_error (polyfit1_slope xs ys) (polyfit1_intercept xs ys) xs ys
       + sq_error (a' - polyfit1_slope xs ys) (b' - polyfit1_intercept xs ys) xs
           [0, 0, 0, 0, 0, 0]" for a' b'
    unfolding xs ys by (rule sq_error6_split)
  show "is_lsq_fit (polyfit1_slope xs ys) (polyfit1_intercept xs ys) xs ys"
    unfolding is_lsq_fit_def
  proof (intro allI)
    fix a' b'
    show "sq_error (polyfit1_slope xs ys) (polyfit1_intercept xs ys) xs ys \<le> sq_error a' b' xs ys"
      using split [of a' b'] sq_error_nonneg [of "a' - polyfit1_slope xs ys" "b' - polyfit1_intercept xs ys" xs "[0, 0, 0, 0, 0, 0]"]
      by linarith
  qed
  show "a = polyfit1_slope xs ys" if fit: "is_lsq_fit a b xs ys"
  proof -
    from fit have "sq_error a b xs ys \<le> sq_error (polyfit1_slope xs ys) (polyfit1_intercept xs ys) xs ys"
      unfolding is_lsq_fit_def by blast
    with split [of a b]
    have "sq_error (a - polyfit1_slope xs ys) (b - polyfit1_intercept xs ys) xs [0, 0, 0, 0, 0, 0] \<le> 0"
      by linarith
    then have "a - polyfit1_slope xs ys = 0"
      unfolding xs by (rule sq_error6_zero)
    then show ?thesis by simp
  qed
qed

text \<open>The slope does not change when a constant is added to every value of the window:
  a window over the last six totals serves as well as one over the whole history.\<close>

lemma growth_slope_shift:
  "growth_slope (map (\<lambda>y. y + k) cum) = growth_slope cum"
proof (cases "6 \<le> length cum")
  case False
  then show ?thesis by (simp add: growth_slope_def)
next
  case True
  then have "length (last6 cum) = 6" by (simp add: length_last6)
  then obtain y0 y1 y2 y3 y4 y5 where ys: "last6 cum = [y0, y1, y2, y3, y4, y5]"
    by (auto simp: length_Suc_conv eval_nat_numeral)
  have "last6 (map (\<lambda>y. y + k) cum) = map (\<lambda>y. y + k) (last6 cum)"
    by (simp add: last6_def drop_map)
  with True ys show ?thesis
    by (simp add: growth_slope_def range6 slope6)
qed

subsection \<open>The start of a run\<close>

lemma py_range_Cons: "a < b \<Longrightarrow> py_range a b = a # py_range (Suc a) b"
  by (simp add: py_range_def upt_conv_Cons)

lemma py_range_Nil: "b \<le> a \<Longrightarrow> py_range a b = []"
  by (simp add: py_range_def)

lemma length_py_range: "length (py_range a b) = b - a"
  by (simp add: py_range_def)

lemma init_state_simps:
  "historical_ev (init_state df :: 'd state) = map real_of_int (last6 (map EV_Total df))"
  "cumulative_ev (init_state df :: 'd state) = cumsum (map real_of_int (last6 (map EV_Total df)))"
  "months_since_start (init_state df :: 'd state) = series_max (map months_since_start_col df)"
  "future_rows (init_state df :: 'd state) = []"
  by (simp_all add: init_state_def Let_def)

lemma init_state_lengths:
  "length (historical_ev (init_state df :: 'd state)) = min 6 (length df)"
  "length (cumulative_ev (init_state df :: 'd state)) = min 6 (length df)"
  by (simp_all add: init_state_simps length_last6 length_cumsum)

lemma forecast_step_short:
  "length (historical_ev s) < 3 \<Longrightarrow>
   forecast_step_with rnd model c d i s
     = Inl (IndexError, s\<lparr>months_since_start := months_since_start s + 1\<rparr>)"
  by (simp add: forecast_step_with_def Let_def features_short)

lemma forecast_with_short:
  assumes "length county_df < 3"
  shows "forecast_with rnd model county_df (Suc h) = Inl IndexError"
proof (cases county_df)
  case Nil
  then show ?thesis by (simp add: forecast_with_def)
next
  case (Cons r0 rest)
  have "length (historical_ev (init_state county_df :: int state)) < 3"
    using assms by (simp add: init_state_lengths)
  then show ?thesis
    using Cons
    by (simp add: forecast_with_def Let_def py_range_Cons forecast_step_short
             del: upt_Suc)
qed

subsection \<open>Steps and runs\<close>

lemma step_pred_Some_iff:
  "step_pred model c s = Some p \<longleftrightarrow>
     (\<exists>row. step_row c s = Some row \<and> model row = Finite p)"
  by (auto simp: step_pred_def split: option.splits prediction.splits)

lemma step_row_Some_iff:
  "(\<exists>row. step_row c s = Some row) \<longleftrightarrow> 3 \<le> length (historical_ev s)"
  by (auto simp: step_row_def features_def lags_def split: sum.splits)

lemma forecast_step_Finite:
  assumes "step_pred model c s = Some p" and "cumulative_ev s \<noteq> []"
  shows "forecast_step_with rnd model c d i s =
           Inr \<lparr> historical_ev = last6 (historical_ev s @ [p]),
                 cumulative_ev = last6 (cumulative_ev s @ [last (cumulative_ev s) + p]),
                 months_since_start = months_since_start s + 1,
                 future_rows = future_rows s @ [(DateOffset_months d (int i), rnd p)] \<rparr>"
  using assms
  by (auto simp: forecast_step_with_def step_pred_def step_row_def Let_def
           split: sum.splits option.splits prediction.splits)

lemma forecast_step_Inr:
  assumes "forecast_step_with rnd model c d i s = Inr s'"
  shows "\<exists>p. step_pred model c s = Some p \<and> cumulative_ev s \<noteq> []"
  using assms
  by (auto simp: forecast_step_with_def step_pred_def step_row_def Let_def
           split: sum.splits option.splits prediction.splits if_splits)

lemma forecast_step_Inr_fields:
  assumes "forecast_step_with rnd model c d i s = Inr s'"
    and "step_pred model c s = Some p"
  shows "historical_ev s' = last6 (historical_ev s @ [p])"
    and "cumulative_ev s' = last6 (cumulative_ev s @ [last (cumulative_ev s) + p])"
    and "months_since_start s' = months_since_start s + 1"
    and "future_rows s' = future_rows s @ [(DateOffset_months d (int i), rnd p)]"
proof -
  from forecast_step_Inr [OF assms(1)] have "cumulative_ev s \<noteq> []" by blast
  from forecast_step_Finite [OF assms(2) this, of rnd d i] assms(1)
  have s': "s' = \<lparr> historical_ev = last6 (historical_ev s @ [p]),
                 cumulative_ev = last6 (cumulative_ev s @ [last (cumulative_ev s) + p]),
                 months_since_start = months_since_start s + 1,
                 future_rows = future_rows s @ [(DateOffset_months d (int i), rnd p)] \<rparr>"
    by simp
  show "historical_ev s' = last6 (historical_ev s @ [p])"
    and "cumulative_ev s' = last6 (cumulative_ev s @ [last (cumulative_ev s) + p])"
    and "months_since_start s' = months_since_start s + 1"
    and "future_rows s' = future_rows s @ [(DateOffset_months d (int i), rnd p)]"
    by (simp_all add: s')
qed

lemma last_last6_snoc: "last (last6 (xs @ [y])) = y"
  by (simp add: last_last6)

lemma loop_Inr:
  assumes "forecast_loop_with rnd model c d js s = Inr s'"
  shows "length (preds_of_run rnd model c d js s) = length js
       \<and> future_rows s' = future_rows s
            @ map2 (\<lambda>i p. (DateOffset_months d (int i), rnd p)) js
                (preds_of_run rnd model c d js s)
       \<and> last (cumulative_ev s')
            = last (cumulative_ev s) + sum_list (preds_of_run rnd model c d js s)
       \<and> months_since_start s' = months_since_start s + int (length js)"
  using assms
proof (induction js arbitrary: s)
  case Nil
  then show ?case by simp
next
  case (Cons i js)
  from Cons.prems obtain s1 where
    step: "forecast_step_with rnd model c d i s = Inr s1" and
    rest: "forecast_loop_with rnd model c d js s1 = Inr s'"
    by (auto split: sum.splits)
  from forecast_step_Inr [OF step] obtain p where
    p: "step_pred model c s = Some p" by blast
  note f = forecast_step_Inr_fields [OF step p]
  have preds: "preds_of_run rnd model c d (i # js) s = p # preds_of_run rnd model c d js s1"
    by (simp add: step p)
  from Cons.IH [OF rest] show ?case
    unfolding preds by (simp add: f last_last6_snoc)
qed

lemma loop_lengths:
  assumes "forecast_loop_with rnd model c d js s = Inr s'"
    and "length (historical_ev s) \<le> 6" and "length (cumulative_ev s) \<le> 6"
  shows "length (historical_ev s') \<le> 6 \<and> length (cumulative_ev s') \<le> 6"
  using assms
proof (induction js arbitrary: s)
  case Nil
  then show ?case by simp
next
  case (Cons i js)
  from Cons.prems(1) obtain s1 where
    step: "forecast_step_with rnd model c d i s = Inr s1" and
    rest: "forecast_loop_with rnd model c d js s1 = Inr s'"
    by (auto split: sum.splits)
  from forecast_step_Inr [OF step] obtain p where
    p: "step_pred model c s = Some p" by blast
  note f = forecast_step_Inr_fields [OF step p]
  have "length (historical_ev s1) \<le> 6" "length (cumulative_ev s1) \<le> 6"
    by (simp_all add: f length_last6)
  with Cons.IH [OF rest] show ?case by blast
qed

lemma loop_total:
  assumes "\<forall>row. \<exists>v. model row = Finite v"
    and "3 \<le> length (historical_ev s)" and "cumulative_ev s \<noteq> []"
  shows "\<exists>s'. forecast_loop_with rnd model c d js s = Inr s'"
  using assms(2,3)
proof (induction js arbitrary: s)
  case Nil
  then show ?case by simp
next
  case (Cons i js)
  from Cons.prems(1) obtain row where row: "step_row c s = Some row"
    using step_row_Some_iff [of c s] by blast
  from assms(1) obtain p where "model row = Finite p" by blast
  with row have p: "step_pred model c s = Some p"
    by (auto simp: step_pred_Some_iff)
  note step = forecast_step_Finite [OF p Cons.prems(2), of rnd d i]
  let ?s1 = "\<lparr> historical_ev = last6 (historical_ev s @ [p]),
                 cumulative_ev = last6 (cumulative_ev s @ [last (cumulative_ev s) + p]),
                 months_since_start = months_since_start s + 1,
                 future_rows = future_rows s @ [(DateOffset_months d (int i), rnd p)] \<rparr>"
  have "3 \<le> length (historical_ev ?s1)" using Cons.prems(1) by (simp add: length_last6)
  moreover have "cumulative_ev ?s1 \<noteq> []" by (simp add: last6_Nil_iff)
  ultimately obtain s' where "forecast_loop_with rnd model c d js ?s1 = Inr s'"
    using Cons.IH by blast
  then show ?case by (simp add: step)
qed

lemma cumsum_Nil_iff: "cumsum xs = [] \<longleftrightarrow> xs = []"
  by (cases xs) (simp_all add: cumsum_def)

lemma map2_fst: "length xs = length ys \<Longrightarrow> map fst (map2 (\<lambda>x y. (f x, g y)) xs ys) = map f xs"
  by (induction xs ys rule: list_induct2) simp_all

lemma map2_snd: "length xs = length ys \<Longrightarrow> map snd (map2 (\<lambda>x y. (f x, g y)) xs ys) = map g ys"
  by (induction xs ys rule: list_induct2) simp_all

lemma forecast_Inr_char:
  assumes "forecast model df h = Inr out"
  shows "df \<noteq> []" and "0 < h"
    and "length (unrounded_predictions model df h) = h"
    and "fc_Date (fst out)
           = map (\<lambda>i. DateOffset_months (series_max (map Date df)) (int i)) (py_range 1 (h + 1))"
    and "fc_Predicted_EV_Total (fst out) = map py_round (unrounded_predictions model df h)"
    and "fc_Cumulative_EV (fst out)
           = map (\<lambda>c. c + last (cumulative_historical df))
               (cumsum (map py_round (unrounded_predictions model df h)))"
proof -
  from assms show ne: "df \<noteq> []"
    by (auto simp: forecast_def forecast_with_def)
  then obtain r0 rest where df: "df = r0 # rest" by (cases df) auto
  let ?c = "county_encoded r0" and ?d = "series_max (map Date df)"
  let ?js = "py_range 1 (h + 1)"
  from assms df obtain s where
    loop: "forecast_loop_with py_round model ?c ?d ?js (init_state df) = Inr s" and
    st: "stitch df (future_rows s) = Inr out"
    by (auto simp: forecast_def forecast_with_def Let_def split: sum.splits)
  have up: "unrounded_predictions model df h
      = preds_of_run py_round model ?c ?d ?js (init_state df :: int state)"
    by (simp add: unrounded_predictions_def df)
  note L = loop_Inr [OF loop, folded up]
  from L have len: "length (unrounded_predictions model df h) = length ?js" by blast
  then show "length (unrounded_predictions model df h) = h"
    by (simp add: length_py_range)
  from L have rows: "future_rows s
      = map2 (\<lambda>i p. (DateOffset_months ?d (int i), py_round p)) ?js
          (unrounded_predictions model df h)"
    by (simp add: init_state_simps)
  from st have rne: "future_rows s \<noteq> []"
    by (auto simp: stitch_def Let_def split: if_splits)
  with rows show "0 < h" by (cases h) (auto simp: py_range_def)
  from st rne have out: "fst out =
      \<lparr> fc_Date = map fst (future_rows s),
        fc_Predicted_EV_Total = map snd (future_rows s),
        fc_Cumulative_EV = map (\<lambda>c. c + last (cumsum (map EV_Total df)))
                             (cumsum (map snd (future_rows s))) \<rparr>"
    by (auto simp: stitch_def Let_def split: if_splits)
  have fsts: "map fst (future_rows s) = map (\<lambda>i. DateOffset_months ?d (int i)) ?js"
    unfolding rows by (rule map2_fst [OF len [symmetric]])
  have snds: "map snd (future_rows s) = map py_round (unrounded_predictions model df h)"
    unfolding rows by (rule map2_snd [OF len [symmetric]])
  show "fc_Date (fst out)
           = map (\<lambda>i. DateOffset_months (series_max (map Date df)) (int i)) (py_range 1 (h + 1))"
    by (simp add: out fsts)
  show "fc_Predicted_EV_Total (fst out) = map py_round (unrounded_predictions model df h)"
    by (simp add: out snds)
  show "fc_Cumulative_EV (fst out)
           = map (\<lambda>c. c + last (cumulative_historical df))
               (cumsum (map py_round (unrounded_predictions model df h)))"
    by (simp add: out snds cumulative_historical_def)
qed

lemma forecast_total:
  assumes "\<forall>row. \<exists>v. model row = Finite v" and "3 \<le> length df" and "1 \<le> h"
  shows "\<exists>out. forecast model df h = Inr out"
proof -
  from assms(2) obtain r0 rest where df: "df = r0 # rest" by (cases df) auto
  let ?c = "county_encoded r0" and ?d = "series_max (map Date df)"
  let ?js = "py_range 1 (h + 1)"
  have "3 \<le> length (historical_ev (init_state df :: int state))"
    using assms(2) by (simp add: init_state_lengths)
  moreover have "cumulative_ev (init_state df :: int state) \<noteq> []"
    using assms(2) init_state_lengths(2) [of df, where ?'d = int] by auto
  ultimately obtain s where
    loop: "forecast_loop_with py_round model ?c ?d ?js (init_state df) = Inr s"
    using loop_total [OF assms(1)] by blast
  from loop_Inr [OF loop] have
    "length (future_rows s) = length ?js"
    by (simp add: init_state_simps)
  with assms(3) have rne: "future_rows s \<noteq> []"
    by (auto simp: length_py_range)
  have "cumsum (map EV_Total df) \<noteq> []" by (simp add: cumsum_Nil_iff df)
  with rne have "\<exists>out. stitch df (future_rows s) = Inr out"
    by (simp add: stitch_def Let_def)
  with loop df show ?thesis
    by (simp add: forecast_def forecast_with_def Let_def)
qed

subsection \<open>Dates of the forecast\<close>

lemma month_index_DateOffset:
  "month_index (DateOffset_months dt i) = month_index dt + i"
proof -
  obtain y m d where dt: "dt = (y, m, d)" by (cases dt) auto
  have "12 * ((m - 1 + i) div 12) + (m - 1 + i) mod 12 = m - 1 + i" by simp
  then show ?thesis
    by (simp add: dt DateOffset_months_def month_index_def Let_def algebra_simps)
qed

lemma DateOffset_strict_mono:
  assumes "i < j"
  shows "DateOffset_months dt i < DateOffset_months dt j"
proof -
  obtain y m d where dt: "dt = (y, m, d)" by (cases dt) auto
  let ?a = "m - 1 + i" and ?b = "m - 1 + j"
  from assms have ab: "?a < ?b" by simp
  have le: "?a div 12 \<le> ?b div 12" using ab by (simp add: zdiv_mono1)
  have "?a mod 12 < ?b mod 12" if "?a div 12 = ?b div 12"
  proof -
    have "?a = 12 * (?a div 12) + ?a mod 12" "?b = 12 * (?b div 12) + ?b mod 12" by simp_all
    with that ab show ?thesis by linarith
  qed
  with le have "?a div 12 < ?b div 12 \<or> (?a div 12 = ?b div 12 \<and> ?a mod 12 < ?b mod 12)"
    by linarith
  then show ?thesis
    by (auto simp: dt DateOffset_months_def Let_def)
qed

lemma fold_max_sorted:
  "sorted (a # xs) \<Longrightarrow> fold max xs a = last (a # xs)"
proof (induction xs arbitrary: a)
  case Nil
  then show ?case by simp
next
  case (Cons x xs)
  from Cons.prems have "a \<le> x" "sorted (x # xs)" by simp_all
  with Cons.IH [of x] show ?case by (simp add: max_absorb2)
qed

lemma series_max_sorted:
  assumes "xs \<noteq> []" and "sorted xs"
  shows "series_max xs = last xs"
proof -
  from assms(1) obtain a ys where xs: "xs = a # ys" by (cases xs) auto
  with assms(2) show ?thesis
    unfolding series_max_def by (simp add: fold_max_sorted del: last.simps)
qed

lemma nth_py_range: "k < b - a \<Longrightarrow> py_range a b ! k = a + k"
  by (simp add: py_range_def)

lemma sorted_wrt_map_py_range:
  assumes "\<And>i j. i < j \<Longrightarrow> f i < f j"
  shows "sorted_wrt (<) (map f (py_range a b))"
  unfolding py_range_def sorted_wrt_map
  by (rule sorted_wrt_mono_rel [of _ "(<)"]) (auto intro: assms)

subsection \<open>The stitched series\<close>

lemma sorted_history3: "sorted (map Date history3)"
  by (simp add: history3_def example_row_def)

lemma const_model_total: "\<forall>row. \<exists>v. const_model (Finite x) row = Finite v"
  by (simp add: const_model_def)

lemma nth_cumsum: "i < length xs \<Longrightarrow> cumsum xs ! i = sum_list (take (Suc i) xs)"
  by (simp add: cumsum_def nth_cumsum_from)

lemma cumsum_step:
  fixes xs :: "int list"
  assumes "Suc i < length xs"
  shows "cumsum xs ! Suc i = cumsum xs ! i + xs ! Suc i"
proof -
  from assms have "take (Suc (Suc i)) xs = take (Suc i) xs @ [xs ! Suc i]"
    by (simp add: take_Suc_conv_app_nth)
  with assms show ?thesis by (simp add: nth_cumsum)
qed

lemma cumsum_first:
  fixes xs :: "int list"
  shows "0 < length xs \<Longrightarrow> cumsum xs ! 0 = xs ! 0"
  by (cases xs) (simp_all add: cumsum_def)

lemma cumulative_forecast_Inr:
  "forecast model df h = Inr out \<Longrightarrow> cumulative_forecast model df h = fc_Cumulative_EV (fst out)"
  by (simp add: cumulative_forecast_def)

subsection \<open>Predictions of a run\<close>



lemma sum_list_of_int: "sum_list (map real_of_int xs) = real_of_int (sum_list xs)"
  by (induction xs) simp_all

lemma loop_append:
  "forecast_loop_with rnd model c d (js @ ks) s =
     (case forecast_loop_with rnd model c d js s of
        Inl e \<Rightarrow> Inl e
      | Inr s1 \<Rightarrow> forecast_loop_with rnd model c d ks s1)"
  by (induction js arbitrary: s) (auto split: sum.splits)

lemma forecast_step_not_Finite:
  assumes "step_row c s = Some row" and "\<forall>p. model row \<noteq> Finite p"
  shows "forecast_step_with rnd model c d i s =
           Inl (case model row of Raised \<Rightarrow> PredictError | NaN \<Rightarrow> ValueError
                  | Infinite \<Rightarrow> OverflowError | Finite p \<Rightarrow> IndexError,
                s\<lparr>months_since_start := months_since_start s + 1\<rparr>)"
  using assms
  by (auto simp: forecast_step_with_def step_row_def Let_def
           split: sum.splits prediction.splits)

lemma py_range_split:
  assumes "k < h"
  shows "py_range 1 (h + 1) = py_range 1 (k + 1) @ (k + 1) # py_range (k + 2) (h + 1)"
proof -
  from assms obtain m where h: "h = k + m" and m: "0 < m"
    by (metis less_imp_add_positive)
  have "[1..<(k + 1) + m] = [1..<k + 1] @ [k + 1..<(k + 1) + m]"
    by (rule upt_add_eq_append) simp
  moreover from m have "[k + 1..<(k + 1) + m] = (k + 1) # [k + 2..<(k + 1) + m]"
    by (simp add: upt_conv_Cons)
  ultimately show ?thesis by (simp add: py_range_def h add.commute add.left_commute)
qed

subsection \<open>The chain does not see the displayed value\<close>









subsection \<open>The second loop against the first\<close>

lemma cty_init_eq: "cty_init df = as_cty_state (init_state df)"
  by (simp add: cty_init_def as_cty_state_def init_state_def Let_def)

lemma cty_step_eq:
  "cty_step model c d i (as_cty_state s) =
     (case forecast_step_with py_round model c d i s of
        Inl raised \<Rightarrow> Inl (fst raised, as_cty_state (snd raised))
      | Inr s' \<Rightarrow> Inr (as_cty_state s'))"
proof (cases "lags (historical_ev s)")
  case (Inl e)
  then show ?thesis
    by (simp add: cty_step_def forecast_step_with_def features_def as_cty_state_def)
next
  case (Inr ls)
  obtain lag1 lag2 lag3 where ls: "ls = (lag1, lag2, lag3)" by (cases ls) auto
  show ?thesis
  proof (cases "cumulative_ev s = []")
    case True
    show ?thesis
      by (simp add: cty_step_def forecast_step_with_def features_def as_cty_state_def Let_def
            pct_change_def growth_slope_def Inr ls True
          split: prediction.splits split del: if_split cong del: if_weak_cong)
  next
    case False
    show ?thesis
      by (simp add: cty_step_def forecast_step_with_def features_def as_cty_state_def Let_def
            pct_change_def growth_slope_def Inr ls False last6_Nil_iff
          split: prediction.splits split del: if_split cong del: if_weak_cong)
  qed
qed

lemma cty_loop_eq:
  "cty_loop model c d js (as_cty_state s) =
     (case forecast_loop_with py_round model c d js s of
        Inl raised \<Rightarrow> Inl (fst raised, as_cty_state (snd raised))
      | Inr s' \<Rightarrow> Inr (as_cty_state s'))"
proof (induction js arbitrary: s)
  case Nil
  then show ?case by simp
next
  case (Cons i js)
  show ?case
    by (cases "forecast_step_with py_round model c d i s")
       (simp_all add: cty_step_eq Cons.IH)
qed

lemma cty_forecast_eq:
  "cty_forecast model cty_df cty h =
     (case forecast model cty_df h of
        Inl e \<Rightarrow> Inl e
      | Inr out \<Rightarrow> Inr (fst out, relabel cty (snd out)))"
proof (cases cty_df)
  case Nil
  then show ?thesis by (simp add: cty_forecast_def forecast_def forecast_with_def)
next
  case (Cons r0 rest)
  show ?thesis
  proof (cases "forecast_loop_with py_round model (county_encoded r0)
                  (series_max (map Date cty_df)) (py_range 1 (h + 1)) (init_state cty_df)")
    case (Inl raised)
    with Cons show ?thesis
      by (simp add: cty_forecast_def forecast_def forecast_with_def Let_def
            cty_init_eq cty_loop_eq)
  next
    case (Inr s)
    have fr: "future_rows_cty (as_cty_state s) = future_rows s"
      by (simp add: as_cty_state_def)
    from Cons Inr show ?thesis
      by (simp add: cty_forecast_def forecast_def forecast_with_def Let_def
            cty_init_eq cty_loop_eq stitch_def relabel_def fr)
  qed
qed

lemma comparison_loop_eq:
  "comparison_loop model df cs h = each_alone model df cs h"
  by (induction cs) (simp_all add: cty_forecast_eq split: sum.splits)

lemma each_alone_Inr:
  assumes "each_alone model df cs h = Inr frames"
  shows "length frames = length cs
       \<and> (\<forall>k<length cs. \<exists>out. forecast model (county_df_of df (cs ! k)) h = Inr out
              \<and> frames ! k = relabel (cs ! k) (snd out))"
  using assms
proof (induction cs arbitrary: frames)
  case Nil
  then show ?case by simp
next
  case (Cons cty rest)
  from Cons.prems obtain out others where
    out: "forecast model (county_df_of df cty) h = Inr out" and
    others: "each_alone model df rest h = Inr others" and
    frames: "frames = relabel cty (snd out) # others"
    by (auto split: sum.splits)
  from Cons.IH [OF others] have len: "length others = length rest" and
    nth: "\<And>k. k < length rest \<Longrightarrow> \<exists>out. forecast model (county_df_of df (rest ! k)) h = Inr out
              \<and> others ! k = relabel (rest ! k) (snd out)"
    by blast+
  have "\<exists>o'. forecast model (county_df_of df ((cty # rest) ! k)) h = Inr o'
              \<and> frames ! k = relabel ((cty # rest) ! k) (snd o')"
    if "k < length (cty # rest)" for k
  proof (cases k)
    case 0
    with out frames show ?thesis by simp
  next
    case (Suc j)
    with that have "j < length rest" by simp
    from nth [OF this] Suc frames show ?thesis by simp
  qed
  with len frames show ?case by simp
qed

lemmas eval_defs = init_state_def history3_def history2_def history7_def history_zero_def
  example_row_def const_model_def last6_def cumsum_def series_max_def features_def lags_def
  pct_change_def np_divide_def np_mean_def growth_slope_def forecast_step_with_def
  step_row_def step_pred_def py_range_Cons py_range_Nil py_round_def DateOffset_months_def
  days_in_month_def is_leap_def Let_def

section \<open>The claims\<close>

text \<open>
  Claim C2, as the code has it: for every history with fewer than 3 rows and every horizon
  of at least 1, the forecast raises Python's IndexError (at line 64 for an empty history,
  at line 77 in the first iteration otherwise) and produces no forecast frame. The script
  has no error class of its own; the error is not \<open>InsufficientHistory\<close>.
\<close>

theorem short_history_fails:
  assumes "length county_df < 3" and "1 \<le> forecast_horizon"
  shows "forecast model county_df forecast_horizon = Inl IndexError"
proof -
  from assms(2) obtain h where "forecast_horizon = Suc h" by (cases forecast_horizon) auto
  with assms(1) show ?thesis by (simp add: forecast_def forecast_with_short)
qed

theorem short_history_fails_witness:
  "length history2 < 3 \<and> (1::nat) \<le> 36
   \<and> forecast (const_model (Finite 160)) history2 36 = Inl IndexError"
proof -
  have l: "length history2 < 3" by (simp add: history2_def)
  have h: "(1::nat) \<le> 36" by simp
  from l h short_history_fails [OF l h] show ?thesis by simp
qed

theorem short_history_counterexample:
  "forecast (const_model (Finite 160)) history2 36 \<noteq> Inl InsufficientHistory"
proof -
  have "length history2 < 3" by (simp add: history2_def)
  then have "forecast_with py_round (const_model (Finite 160)) history2 (Suc 35) = Inl IndexError"
    by (rule forecast_with_short)
  then show ?thesis by (simp add: forecast_def)
qed



text \<open>
  Claim C6: in the feature row computed from a state, \<open>growth_slope\<close> is 0 when the
  cumulative window holds fewer than 6 points; when it holds at least 6, it is the slope of
  a line that minimises the squared error against the indices 0..5 over the last six
  cumulative values, and every such line has this slope.
\<close>

theorem growth_slope_least_squares:
  assumes "features c s = Inr row"
  shows "(length (cumulative_ev s) < 6 \<longrightarrow> ev_growth_slope row = 0)
       \<and> (6 \<le> length (cumulative_ev s) \<longrightarrow>
            (\<exists>b. is_lsq_fit (ev_growth_slope row) b (map real [0..<6]) (last6 (cumulative_ev s)))
          \<and> (\<forall>a b. is_lsq_fit a b (map real [0..<6]) (last6 (cumulative_ev s))
                 \<longrightarrow> a = ev_growth_slope row))"
proof -
  have slope: "ev_growth_slope row = growth_slope (cumulative_ev s)"
    using assms by (rule features_fields(7))
  have short: "ev_growth_slope row = 0" if "length (cumulative_ev s) < 6"
    using that by (simp add: slope growth_slope_def)
  have long: "(\<exists>b. is_lsq_fit (ev_growth_slope row) b (map real [0..<6]) (last6 (cumulative_ev s)))
          \<and> (\<forall>a b. is_lsq_fit a b (map real [0..<6]) (last6 (cumulative_ev s))
                 \<longrightarrow> a = ev_growth_slope row)" if "6 \<le> length (cumulative_ev s)"
  proof -
    from that have len: "length (last6 (cumulative_ev s)) = 6"
      by (simp add: length_last6)
    from that have eq: "ev_growth_slope row
        = polyfit1_slope (map real [0..<6]) (last6 (cumulative_ev s))"
      by (simp add: slope growth_slope_def)
    show ?thesis
      unfolding eq using lsq6(1) [OF len] lsq6(2) [OF len] by blast
  qed
  from short long show ?thesis by blast
qed


theorem growth_slope_least_squares_witness:
  "features 1 (init_state history3 :: int state)
     = Inr \<lparr>row_months_since_start = 2, row_county_encoded = 1, ev_total_lag1 = 150,
            ev_total_lag2 = 120, ev_total_lag3 = 100, ev_total_roll_mean_3 = 370 / 3,
            ev_total_pct_change_1 = Some (1 / 4), ev_total_pct_change_3 = Some (1 / 2),
            ev_growth_slope = 0\<rparr>
   \<and> length (cumulative_ev (init_state history3 :: int state)) < 6
   \<and> features 1 (init_state history6 :: int state)
     = Inr \<lparr>row_months_since_start = 5, row_county_encoded = 1, ev_total_lag1 = 11,
            ev_total_lag2 = 9, ev_total_lag3 = 7, ev_total_roll_mean_3 = 9,
            ev_total_pct_change_1 = Some (2 / 9), ev_total_pct_change_3 = Some (4 / 7),
            ev_growth_slope = 7\<rparr>
   \<and> 6 \<le> length (cumulative_ev (init_state history6 :: int state))
   \<and> (\<exists>b. is_lsq_fit 7 b (map real [0..<6]) (last6 (cumulative_ev (init_state history6 :: int state))))"
proof -
  have f3: "features 1 (init_state history3 :: int state)
     = Inr \<lparr>row_months_since_start = 2, row_county_encoded = 1, ev_total_lag1 = 150,
            ev_total_lag2 = 120, ev_total_lag3 = 100, ev_total_roll_mean_3 = 370 / 3,
            ev_total_pct_change_1 = Some (1 / 4), ev_total_pct_change_3 = Some (1 / 2),
            ev_growth_slope = 0\<rparr>"
    by (simp add: eval_defs)
  have l3: "length (cumulative_ev (init_state history3 :: int state)) < 6"
    by (simp add: init_state_lengths history3_def)
  have f6: "features 1 (init_state history6 :: int state)
     = Inr \<lparr>row_months_since_start = 5, row_county_encoded = 1, ev_total_lag1 = 11,
            ev_total_lag2 = 9, ev_total_lag3 = 7, ev_total_roll_mean_3 = 9,
            ev_total_pct_change_1 = Some (2 / 9), ev_total_pct_change_3 = Some (4 / 7),
            ev_growth_slope = 7\<rparr>"
    by (simp add: eval_defs history6_def range6 slope6)
  have l6: "6 \<le> length (cumulative_ev (init_state history6 :: int state))"
    by (simp add: init_state_lengths history6_def)
  from growth_slope_least_squares [OF f3] growth_slope_least_squares [OF f6] f3 l3 f6 l6
  show ?thesis by simp
qed

text \<open>
  Claim C4: for every history of at least 3 rows sorted by date, every horizon of at least
  1 and every model that answers each row with a finite number, the forecast returns
  exactly \<open>forecast_horizon\<close> points; the k-th point carries the rounded k-th prediction (the
  order of generation); its date is the last historical date moved by k calendar months,
  so the months are consecutive and start one month after the last historical month, and
  the dates increase strictly.
\<close>

theorem forecast_points_and_dates:
  assumes "3 \<le> length county_df" and "1 \<le> forecast_horizon"
    and "\<forall>row. \<exists>v. model row = Finite v"
    and "sorted (map Date county_df)"
  shows "\<exists>out. forecast model county_df forecast_horizon = Inr out
     \<and> length (fc_Date (fst out)) = forecast_horizon
     \<and> length (fc_Predicted_EV_Total (fst out)) = forecast_horizon
     \<and> fc_Predicted_EV_Total (fst out)
         = map py_round (unrounded_predictions model county_df forecast_horizon)
     \<and> (\<forall>k<forecast_horizon.
           fc_Date (fst out) ! k = DateOffset_months (Date (last county_df)) (int k + 1)
         \<and> month_index (fc_Date (fst out) ! k)
             = month_index (Date (last county_df)) + int k + 1)
     \<and> sorted_wrt (<) (fc_Date (fst out))"
proof -
  from forecast_total [OF assms(3,1,2)] obtain out where
    out: "forecast model county_df forecast_horizon = Inr out" by blast
  note C = forecast_Inr_char [OF out]
  from assms(1) have ne: "map Date county_df \<noteq> []" by auto
  have latest: "series_max (map Date county_df) = Date (last county_df)"
    using series_max_sorted [OF ne assms(4)] ne by (simp add: last_map)
  have dates: "fc_Date (fst out)
      = map (\<lambda>i. DateOffset_months (Date (last county_df)) (int i))
          (py_range 1 (forecast_horizon + 1))"
    using C(4) by (simp add: latest)
  have l1: "length (fc_Date (fst out)) = forecast_horizon"
    by (simp add: dates length_py_range)
  have l2: "length (fc_Predicted_EV_Total (fst out)) = forecast_horizon"
    by (simp add: C(5) C(3))
  have nth: "fc_Date (fst out) ! k = DateOffset_months (Date (last county_df)) (int k + 1)"
    if "k < forecast_horizon" for k
    using that by (simp add: dates length_py_range nth_py_range add.commute)
  have idx: "month_index (fc_Date (fst out) ! k)
             = month_index (Date (last county_df)) + int k + 1"
    if "k < forecast_horizon" for k
    using that by (simp add: nth month_index_DateOffset)
  have srt: "sorted_wrt (<) (fc_Date (fst out))"
    unfolding dates
    by (rule sorted_wrt_map_py_range) (simp add: DateOffset_strict_mono)
  from out l1 l2 C(5) nth idx srt show ?thesis by blast
qed

theorem forecast_points_and_dates_witness:
  "3 \<le> length history3 \<and> (1::nat) \<le> 2
   \<and> (\<forall>row. \<exists>v. const_model (Finite 160) row = Finite v)
   \<and> sorted (map Date history3)
   \<and> (\<exists>out. forecast (const_model (Finite 160)) history3 2 = Inr out
        \<and> length (fc_Date (fst out)) = 2
        \<and> sorted_wrt (<) (fc_Date (fst out)))"
proof -
  have h1: "3 \<le> length history3" by (simp add: history3_def)
  have h2: "(1::nat) \<le> 2" by simp
  have h3: "\<forall>row. \<exists>v. const_model (Finite 160) row = Finite v"
    by (rule const_model_total)
  have h4: "sorted (map Date history3)" by (rule sorted_history3)
  from forecast_points_and_dates [OF h1 h2 h3 h4] h1 h2 h3 h4 show ?thesis by blast
qed

text \<open>
  Claim C1, as the code has it: the stitched cumulative series of the forecast is built
  from the rounded predictions. Its first value is the final historical cumulative value
  plus the rounded prediction of step 0, and each later value exceeds its predecessor by
  the rounded prediction of its step.
\<close>

theorem stitched_from_rounded:
  assumes "forecast model county_df forecast_horizon = Inr out" and "i < forecast_horizon"
  shows "cumulative_forecast model county_df forecast_horizon ! i
     = (if i = 0 then last (cumulative_historical county_df)
        else cumulative_forecast model county_df forecast_horizon ! (i - 1))
       + py_round (unrounded_predictions model county_df forecast_horizon ! i)"
proof -
  note C = forecast_Inr_char [OF assms(1)]
  let ?ps = "map py_round (unrounded_predictions model county_df forecast_horizon)"
  have len: "length ?ps = forecast_horizon" by (simp add: C(3))
  have cf: "cumulative_forecast model county_df forecast_horizon
      = map (\<lambda>c. c + last (cumulative_historical county_df)) (cumsum ?ps)"
    by (simp add: cumulative_forecast_Inr [OF assms(1)] C(6))
  show ?thesis
  proof (cases i)
    case 0
    with assms(2) len show ?thesis
      by (simp add: cf length_cumsum cumsum_first C(3))
  next
    case (Suc j)
    with assms(2) len have "Suc j < length ?ps" by simp
    from cumsum_step [OF this] Suc assms(2) len show ?thesis
      by (simp add: cf length_cumsum C(3))
  qed
qed

theorem stitched_from_rounded_witness:
  "forecast (const_model (Finite (802 / 5))) history3 2
     = Inr (\<lparr>fc_Date = [(2024, 4, 1), (2024, 5, 1)], fc_Predicted_EV_Total = [160, 160],
              fc_Cumulative_EV = [530, 690]\<rparr>,
            \<lparr>cb_Date = [(2024, 1, 1), (2024, 2, 1), (2024, 3, 1), (2024, 4, 1), (2024, 5, 1)],
              cb_Cumulative_EV = [100, 220, 370, 530, 690],
              cb_label = [''Historical'', ''Historical'', ''Historical'', ''Forecast'', ''Forecast'']\<rparr>)
   \<and> (1::nat) < 2
   \<and> cumulative_forecast (const_model (Finite (802 / 5))) history3 2 ! 1
       = cumulative_forecast (const_model (Finite (802 / 5))) history3 2 ! 0
         + py_round (unrounded_predictions (const_model (Finite (802 / 5))) history3 2 ! 1)"
proof -
  have run: "forecast (const_model (Finite (802 / 5))) history3 2
     = Inr (\<lparr>fc_Date = [(2024, 4, 1), (2024, 5, 1)], fc_Predicted_EV_Total = [160, 160],
              fc_Cumulative_EV = [530, 690]\<rparr>,
            \<lparr>cb_Date = [(2024, 1, 1), (2024, 2, 1), (2024, 3, 1), (2024, 4, 1), (2024, 5, 1)],
              cb_Cumulative_EV = [100, 220, 370, 530, 690],
              cb_label = [''Historical'', ''Historical'', ''Historical'', ''Forecast'', ''Forecast'']\<rparr>)"
    by code_simp
  have lt: "(1::nat) < 2" by simp
  from stitched_from_rounded [OF run lt] run lt show ?thesis by simp
qed

theorem stitched_from_unrounded_counterexample:
  "real_of_int (cumulative_forecast (const_model (Finite (802 / 5))) history3 1 ! 0)
     \<noteq> real_of_int (last (cumulative_historical history3))
         + unrounded_predictions (const_model (Finite (802 / 5))) history3 1 ! 0"
  by code_simp



text \<open>
  Claim C3, as the code has it: before the first step and after every completed step the
  raw window and the cumulative window have at most 6 elements; the cumulative window is
  seeded with the cumulative sums of the last 6 historical values only (line 68 sums the
  already truncated list of line 67), and its last element is the sum of those last 6
  historical values plus all predictions made so far.
\<close>

theorem window_invariant:
  assumes "county_df \<noteq> []"
    and "forecast_loop_with rnd model c d (py_range 1 (k + 1)) (init_state county_df) = Inr s"
  shows "length (historical_ev s) \<le> 6 \<and> length (cumulative_ev s) \<le> 6
     \<and> cumulative_ev (init_state county_df :: 'd state)
         = cumsum (map real_of_int (last6 (map EV_Total county_df)))
     \<and> last (cumulative_ev s)
         = real_of_int (sum_list (last6 (map EV_Total county_df)))
           + sum_list (preds_of_run rnd model c d (py_range 1 (k + 1))
                         (init_state county_df :: 'd state))"
proof -
  let ?s0 = "init_state county_df :: 'd state"
  have l0: "length (historical_ev ?s0) \<le> 6" "length (cumulative_ev ?s0) \<le> 6"
    by (simp_all add: init_state_lengths)
  note lens = loop_lengths [OF assms(2) l0]
  from assms(1) have "map real_of_int (last6 (map EV_Total county_df)) \<noteq> []"
    by (simp add: last6_Nil_iff)
  then have "last (cumulative_ev ?s0)
      = sum_list (map real_of_int (last6 (map EV_Total county_df)))"
    by (simp add: init_state_simps last_cumsum)
  then have seed: "last (cumulative_ev ?s0)
      = real_of_int (sum_list (last6 (map EV_Total county_df)))"
    by (simp add: sum_list_of_int)
  from loop_Inr [OF assms(2)] have "last (cumulative_ev s)
      = last (cumulative_ev ?s0)
        + sum_list (preds_of_run rnd model c d (py_range 1 (k + 1)) ?s0)"
    by blast
  with lens seed show ?thesis by (simp add: init_state_simps)
qed

theorem window_invariant_witness:
  "history7 \<noteq> []
   \<and> forecast_loop_with py_round (const_model (Finite (1 / 2))) 1 (2024, 7, 1)
        (py_range 1 (1 + 1)) (init_state history7)
      = Inr \<lparr> historical_ev = [3, 4, 5, 6, 7, 1 / 2],
              cumulative_ev = [5, 9, 14, 20, 27, 55 / 2],
              months_since_start = 7, future_rows = [((2024, 8, 1), 0)] \<rparr>
   \<and> last [5, 9, 14, 20, 27, 55 / 2 :: real]
       = real_of_int (sum_list (last6 (map EV_Total history7)))
         + sum_list (preds_of_run py_round (const_model (Finite (1 / 2))) 1 (2024, 7, 1)
                       (py_range 1 (1 + 1)) (init_state history7 :: int state))"
proof -
  have ne: "history7 \<noteq> []" by (simp add: history7_def)
  have run: "forecast_loop_with py_round (const_model (Finite (1 / 2))) 1 (2024, 7, 1)
        (py_range 1 (1 + 1)) (init_state history7)
      = Inr \<lparr> historical_ev = [3, 4, 5, 6, 7, 1 / 2],
              cumulative_ev = [5, 9, 14, 20, 27, 55 / 2],
              months_since_start = 7, future_rows = [((2024, 8, 1), 0)] \<rparr>"
    by code_simp
  from window_invariant [OF ne run] ne run show ?thesis by simp
qed

theorem window_seed_counterexample:
  "cumulative_ev (init_state history7 :: int state) = [2, 5, 9, 14, 20, 27]
   \<and> map real_of_int (cumsum (map EV_Total history7)) = [1, 3, 6, 10, 15, 21, 28]
   \<and> last (cumulative_ev (init_state history7 :: int state))
       \<noteq> real_of_int (sum_list (map EV_Total history7))"
  by code_simp

text \<open>
  Claim C7, as the code has it: when the first \<open>k\<close> steps complete and the model then raises
  or returns a value that is not finite, the run stops in step \<open>k + 1\<close> with the model's own
  exception, or with the ValueError (NaN) or OverflowError (infinity) that \<open>round\<close> raises at
  line 96; the script has no \<open>PredictorFailure\<close>. No forecast frame is built and no value is
  put in place of the missing prediction. The windows and \<open>future_rows\<close> are as the step
  found them; only \<open>months_since_start\<close> has been advanced.
\<close>

theorem predictor_failure_aborts:
  assumes "county_df \<noteq> []" and "k < forecast_horizon"
    and "forecast_loop_with py_round model (county_encoded (hd county_df))
           (series_max (map Date county_df)) (py_range 1 (k + 1)) (init_state county_df)
         = Inr s"
    and "step_row (county_encoded (hd county_df)) s = Some row"
    and "\<forall>p. model row \<noteq> Finite p"
  shows "\<exists>e. forecast_loop_with py_round model (county_encoded (hd county_df))
           (series_max (map Date county_df)) (py_range 1 (forecast_horizon + 1))
           (init_state county_df)
         = Inl (e, s\<lparr>months_since_start := months_since_start s + 1\<rparr>)
       \<and> forecast model county_df forecast_horizon = Inl e
       \<and> (model row = Raised \<longrightarrow> e = PredictError)
       \<and> (model row = NaN \<longrightarrow> e = ValueError)
       \<and> (model row = Infinite \<longrightarrow> e = OverflowError)
       \<and> e \<noteq> PredictorFailure"
proof -
  let ?c = "county_encoded (hd county_df)" and ?d = "series_max (map Date county_df)"
  let ?e = "case model row of Raised \<Rightarrow> PredictError | NaN \<Rightarrow> ValueError
              | Infinite \<Rightarrow> OverflowError | Finite p \<Rightarrow> IndexError"
  let ?s = "s\<lparr>months_since_start := months_since_start s + 1\<rparr>"
  from assms(1) obtain r0 rest where df: "county_df = r0 # rest" by (cases county_df) auto
  have step: "forecast_step_with py_round model ?c ?d (k + 1) s = Inl (?e, ?s)"
    using assms(4,5) by (rule forecast_step_not_Finite)
  have loop: "forecast_loop_with py_round model ?c ?d (py_range 1 (forecast_horizon + 1))
           (init_state county_df) = Inl (?e, ?s)"
    unfolding py_range_split [OF assms(2)] loop_append
    using assms(3) step by simp
  then have fc: "forecast model county_df forecast_horizon = Inl ?e"
    by (simp add: forecast_def forecast_with_def df Let_def)
  have e: "(model row = Raised \<longrightarrow> ?e = PredictError)
       \<and> (model row = NaN \<longrightarrow> ?e = ValueError)
       \<and> (model row = Infinite \<longrightarrow> ?e = OverflowError)
       \<and> ?e \<noteq> PredictorFailure"
    by (cases "model row") simp_all
  from loop fc e show ?thesis by blast
qed

theorem predictor_failure_aborts_witness:
  "history3 \<noteq> [] \<and> (1::nat) < 36
   \<and> forecast_loop_with py_round (failing_from 4 NaN) (county_encoded (hd history3))
        (series_max (map Date history3)) (py_range 1 (1 + 1)) (init_state history3)
      = Inr \<lparr> historical_ev = [100, 120, 150, 160], cumulative_ev = [100, 220, 370, 530],
              months_since_start = 3, future_rows = [((2024, 4, 1), 160)] \<rparr>
   \<and> step_row (county_encoded (hd history3))
        \<lparr> historical_ev = [100, 120, 150, 160], cumulative_ev = [100, 220, 370, 530],
          months_since_start = 3, future_rows = [((2024, 4, 1), 160 :: int)] \<rparr>
      = Some \<lparr>row_months_since_start = 4, row_county_encoded = 1, ev_total_lag1 = 160,
               ev_total_lag2 = 150, ev_total_lag3 = 120, ev_total_roll_mean_3 = 430 / 3,
               ev_total_pct_change_1 = Some (1 / 15), ev_total_pct_change_3 = Some (1 / 3),
               ev_growth_slope = 0\<rparr>
   \<and> forecast (failing_from 4 NaN) history3 36 = Inl ValueError"
proof -
  let ?S = "\<lparr> historical_ev = [100, 120, 150, 160], cumulative_ev = [100, 220, 370, 530],
              months_since_start = 3, future_rows = [((2024, 4, 1), 160 :: int)] \<rparr>"
  let ?R = "\<lparr>row_months_since_start = 4, row_county_encoded = 1, ev_total_lag1 = 160,
               ev_total_lag2 = 150, ev_total_lag3 = 120, ev_total_roll_mean_3 = 430 / 3,
               ev_total_pct_change_1 = Some (1 / 15), ev_total_pct_change_3 = Some (1 / 3),
               ev_growth_slope = 0\<rparr>"
  have ne: "history3 \<noteq> []" by (simp add: history3_def)
  have lt: "(1::nat) < 36" by simp
  have run: "forecast_loop_with py_round (failing_from 4 NaN) (county_encoded (hd history3))
        (series_max (map Date history3)) (py_range 1 (1 + 1)) (init_state history3) = Inr ?S"
    by code_simp
  have row: "step_row (county_encoded (hd history3)) ?S = Some ?R"
    by code_simp
  have nan: "failing_from 4 NaN ?R = NaN" by (simp add: failing_from_def)
  then have bad: "\<forall>p. failing_from 4 NaN ?R \<noteq> Finite p" by simp
  from predictor_failure_aborts [OF ne lt run row bad] nan
  have "forecast (failing_from 4 NaN) history3 36 = Inl ValueError" by auto
  with ne lt run row show ?thesis by blast
qed

theorem predictor_failure_counterexample:
  "forecast (const_model NaN) history3 36 = Inl ValueError
   \<and> forecast (const_model NaN) history3 36 \<noteq> Inl PredictorFailure"
  by code_simp


text \<open>
  Claim C8, as the code has it: the body of the multi-county loop (lines 153-198) computes
  for a county what the single-county code (lines 63-114) computes, the combined series
  being labelled with the county. With more than three counties selected nothing is
  computed. Otherwise the comparison is the single-county forecast of each selected county
  alone, in order; it has a result only when every one of them succeeds, and it ends with
  the error of the first that fails. When it has a result, the k-th frame is the relabelled
  combined series of the single forecast of the k-th county.
\<close>

theorem multi_county_same_as_single:
  "cty_forecast model (county_df_of df cty) cty forecast_horizon
     = (case forecast model (county_df_of df cty) forecast_horizon of
          Inl e \<Rightarrow> Inl e
        | Inr out \<Rightarrow> Inr (fst out, relabel cty (snd out)))
   \<and> multi_county_comparison model df multi_counties forecast_horizon
     = (if 3 < length multi_counties then Inr None
        else case each_alone model df multi_counties forecast_horizon of
               Inl e \<Rightarrow> Inl e
             | Inr frames \<Rightarrow> Inr (Some frames))
   \<and> (multi_county_comparison model df multi_counties forecast_horizon = Inr (Some frames)
        \<longrightarrow> length multi_counties \<le> 3 \<and> length frames = length multi_counties
          \<and> (\<forall>k<length multi_counties.
                \<exists>out. forecast model (county_df_of df (multi_counties ! k)) forecast_horizon
                        = Inr out
                    \<and> frames ! k = relabel (multi_counties ! k) (snd out)))"
proof -
  have single: "cty_forecast model (county_df_of df cty) cty forecast_horizon
     = (case forecast model (county_df_of df cty) forecast_horizon of
          Inl e \<Rightarrow> Inl e
        | Inr out \<Rightarrow> Inr (fst out, relabel cty (snd out)))"
    by (rule cty_forecast_eq)
  have multi: "multi_county_comparison model df multi_counties forecast_horizon
     = (if 3 < length multi_counties then Inr None
        else case each_alone model df multi_counties forecast_horizon of
               Inl e \<Rightarrow> Inl e
             | Inr frames \<Rightarrow> Inr (Some frames))"
    by (simp add: multi_county_comparison_def comparison_loop_eq)
  have each: "length multi_counties \<le> 3 \<and> length frames = length multi_counties
          \<and> (\<forall>k<length multi_counties.
                \<exists>out. forecast model (county_df_of df (multi_counties ! k)) forecast_horizon
                        = Inr out
                    \<and> frames ! k = relabel (multi_counties ! k) (snd out))"
    if ok: "multi_county_comparison model df multi_counties forecast_horizon
                = Inr (Some frames)"
  proof -
    from ok multi have le: "length multi_counties \<le> 3"
      and ea: "each_alone model df multi_counties forecast_horizon = Inr frames"
      by (auto split: if_splits sum.splits)
    from le each_alone_Inr [OF ea] show ?thesis by blast
  qed
  from single multi each show ?thesis by blast
qed

theorem multi_county_same_as_single_witness:
  "multi_county_comparison (const_model (Finite 160)) df4 [''Ada'', ''King''] 1
     = Inr (Some
         [\<lparr>cb_Date = [(2024, 1, 1), (2024, 2, 1), (2024, 3, 1), (2024, 4, 1)],
            cb_Cumulative_EV = [100, 220, 370, 530],
            cb_label = [''Ada'', ''Ada'', ''Ada'', ''Ada'']\<rparr>,
          \<lparr>cb_Date = [(2024, 1, 1), (2024, 2, 1), (2024, 3, 1), (2024, 4, 1)],
            cb_Cumulative_EV = [100, 220, 370, 530],
            cb_label = [''King'', ''King'', ''King'', ''King'']\<rparr>])
   \<and> length [''Ada'', ''King''] \<le> 3
   \<and> length
         [\<lparr>cb_Date = [(2024, 1, 1), (2024, 2, 1), (2024, 3, 1), (2024, 4, 1)],
            cb_Cumulative_EV = [100, 220, 370, 530],
            cb_label = [''Ada'', ''Ada'', ''Ada'', ''Ada'']\<rparr>,
          \<lparr>cb_Date = [(2024, 1, 1), (2024, 2, 1), (2024, 3, 1), (2024, 4, 1)],
            cb_Cumulative_EV = [100, 220, 370, 530],
            cb_label = [''King'', ''King'', ''King'', ''King'']\<rparr>]
       = length [''Ada'', ''King'']"
proof -
  have run: "multi_county_comparison (const_model (Finite 160)) df4 [''Ada'', ''King''] 1
     = Inr (Some
         [\<lparr>cb_Date = [(2024, 1, 1), (2024, 2, 1), (2024, 3, 1), (2024, 4, 1)],
            cb_Cumulative_EV = [100, 220, 370, 530],
            cb_label = [''Ada'', ''Ada'', ''Ada'', ''Ada'']\<rparr>,
          \<lparr>cb_Date = [(2024, 1, 1), (2024, 2, 1), (2024, 3, 1), (2024, 4, 1)],
            cb_Cumulative_EV = [100, 220, 370, 530],
            cb_label = [''King'', ''King'', ''King'', ''King'']\<rparr>])"
    by code_simp
  from multi_county_same_as_single
         [of "const_model (Finite 160)" df4 "''Ada''" 1 "[''Ada'', ''King'']"] run
  show ?thesis by blast
qed

theorem multi_county_counterexample:
  "multi_county_comparison (const_model (Finite 160)) df4 four_counties 1 = Inr None
   \<and> forecast (const_model (Finite 160)) (county_df_of df4 ''King'') 1
     = Inr (\<lparr>fc_Date = [(2024, 4, 1)], fc_Predicted_EV_Total = [160],
              fc_Cumulative_EV = [530]\<rparr>,
            \<lparr>cb_Date = [(2024, 1, 1), (2024, 2, 1), (2024, 3, 1), (2024, 4, 1)],
              cb_Cumulative_EV = [100, 220, 370, 530],
              cb_label = [''Historical'', ''Historical'', ''Historical'', ''Forecast'']\<rparr>)"
  by code_simp

end
